theory Spec2Isabelle
  imports Main
begin

section \<open>Data model\<close>

text \<open>
  A row of the user table. The column \<open>id\<close> is named \<open>id_pk\<close> here, since \<open>id\<close> is the
  identity function of HOL. Strings are byte strings (UTF-8).
\<close>

record user =
  id_pk :: nat
  username :: string
  email :: string
  password :: string
  is_active :: bool
  logintype :: string

text \<open>A JSON object with string values, as a request body or the identity provider sends it.\<close>

type_synonym dict = "(string \<times> string) list"

text \<open>\<open>serializer.errors\<close>: the messages of each failing field.\<close>

type_synonym errors = "(string \<times> string list) list"

text \<open>\<open>request.user\<close>: the anonymous user has no id.\<close>

datatype principal = AnonymousUser | Authenticated user

fun principal_id :: "principal \<Rightarrow> nat option" where
  "principal_id AnonymousUser = None"
| "principal_id (Authenticated u) = Some (id_pk u)"

record request =
  data :: dict
  user :: principal

text \<open>The serialized record of a user: the row without its password.\<close>

record user_repr =
  repr_id :: nat
  repr_username :: string
  repr_email :: string
  repr_is_active :: bool
  repr_logintype :: string

text \<open>
  The body of a response: \<open>{"message": m}\<close>, the errors of a serializer,
  \<open>{"refresh": r, "access": a}\<close>, or a serialized user.
\<close>

datatype body =
  Message string
| Errors errors
| Tokens string string
| Serialized user_repr

record response =
  body :: body
  status_code :: nat

definition HTTP_200_OK :: nat where "HTTP_200_OK = 200"
definition HTTP_201_CREATED :: nat where "HTTP_201_CREATED = 201"
definition HTTP_400_BAD_REQUEST :: nat where "HTTP_400_BAD_REQUEST = 400"
definition HTTP_401_UNAUTHORIZED :: nat where "HTTP_401_UNAUTHORIZED = 401"
definition HTTP_404_NOT_FOUND :: nat where "HTTP_404_NOT_FOUND = 404"

text \<open>\<open>Response(data, status=None)\<close> of the REST framework: without a status it is 200.\<close>

definition Response :: "body \<Rightarrow> nat option \<Rightarrow> response" where
  "Response b s = \<lparr>body = b, status_code = (case s of None \<Rightarrow> HTTP_200_OK | Some c \<Rightarrow> c)\<rparr>"

text \<open>The exceptions a handler can leave uncaught.\<close>

datatype exn = Http404 | DoesNotExist | MultipleObjectsReturned | IndexError | RequestFailed

text \<open>
  The framework answers \<open>Http404\<close> with status 404 and any other uncaught exception
  with status 500.
\<close>

fun final_status :: "exn + response \<Rightarrow> nat" where
  "final_status (Inr r) = status_code r"
| "final_status (Inl Http404) = HTTP_404_NOT_FOUND"
| "final_status (Inl _) = 500"

text \<open>
  The message literals of \<open>views.py\<close> are Korean; they are given by their UTF-8 bytes
  (lines 43, 64, 150, 160 and 179).
\<close>

definition msg_signup_ok :: string where
  "msg_signup_ok = map char_of [0xED, 0x9A, 0x8C, 0xEC, 0x9B, 0x90, 0xEA, 0xB0, 0x80,
     0xEC, 0x9E, 0x85, 0xEC, 0x84, 0xB1, 0xEA, 0xB3, 0xB5 :: nat]"

definition msg_signout_ok :: string where
  "msg_signout_ok = map char_of [0xED, 0x9A, 0x8C, 0xEC, 0x9B, 0x90, 0xED, 0x83, 0x88,
     0xED, 0x87, 0xB4, 0xEC, 0x84, 0xB1, 0xEA, 0xB3, 0xB5 :: nat]"

definition msg_no_token :: string where
  "msg_no_token = map char_of [0xED, 0x86, 0xA0, 0xED, 0x81, 0xB0, 0xEC, 0x9D, 0xB4, 0x20,
     0xEC, 0x97, 0x86, 0xEC, 0x8A, 0xB5, 0xEB, 0x8B, 0x88, 0xEB, 0x8B, 0xA4, 0x2E :: nat]"

definition msg_no_userinfo :: string where
  "msg_no_userinfo = map char_of [0xEC, 0x9C, 0xA0, 0xEC, 0xA0, 0x80, 0xEC, 0xA0, 0x95,
     0xEB, 0xB3, 0xB4, 0xEC, 0x97, 0x90, 0x20, 0xEC, 0xA0, 0x91, 0xEA, 0xB7, 0xBC, 0xED, 0x95,
     0xA0, 0x20, 0xEC, 0x88, 0x98, 0x20, 0xEC, 0x97, 0x86, 0xEC, 0x8A, 0xB5, 0xEB, 0x8B, 0x88,
     0xEB, 0x8B, 0xA4, 0x2E :: nat]"

definition msg_not_social :: string where
  "msg_not_social = map char_of [0xEC, 0x86, 0x8C, 0xEC, 0x85, 0x9C, 0x20, 0xEB, 0xA1, 0x9C,
     0xEA, 0xB7, 0xB8, 0xEC, 0x9D, 0xB8, 0x20, 0xEC, 0x9D, 0xB4, 0xEB, 0xA9, 0x94, 0xEC, 0x9D,
     0xBC, 0xEC, 0x9D, 0xB4, 0x20, 0xEC, 0x95, 0x84, 0xEB, 0x8B, 0x99, 0xEB, 0x8B, 0x88, 0xEB,
     0x8B, 0xA4, 0x2E :: nat]"

section \<open>The world outside the handlers\<close>

text \<open>
  What a handler does beyond returning: queries and writes of the user table, requests
  to another server, and printing. The trace records them in order.
\<close>

datatype event = DB_Read | DB_Write | HTTP_Get string dict | Printed dict

record world =
  users :: "user list"
  trace :: "event list"

definition emit :: "event \<Rightarrow> world \<Rightarrow> world" where
  "emit e w = w\<lparr>trace := trace w @ [e]\<rparr>"

text \<open>
  What the libraries and the identity provider supply: the answer of the userinfo endpoint
  to an Authorization header (None when the request or its JSON decoding fails), the
  password hasher, the field constraints of the serializers (serializer, field, value),
  and the token library's fresh payload and its three encoded parts.
\<close>

datatype jval = S string | N nat

type_synonym claims = "string \<rightharpoonup> jval"

record env =
  userinfo :: "string \<Rightarrow> dict option"
  make_password :: "string \<Rightarrow> string"
  check_password :: "string \<Rightarrow> string \<Rightarrow> bool"
  field_errors :: "string \<Rightarrow> string \<Rightarrow> string \<Rightarrow> string list"
  new_token :: "string \<Rightarrow> claims"
  jwt_header :: "string"
  jwt_payload :: "claims \<Rightarrow> string"
  jwt_signature :: "claims \<Rightarrow> string"

subsection \<open>The object-relational mapper\<close>

text \<open>\<open>User.objects.get(...)\<close>: the one row that matches, or an exception.\<close>

definition objects_get :: "(user \<Rightarrow> bool) \<Rightarrow> world \<Rightarrow> (exn + user) \<times> world" where
  "objects_get P w =
     ((case filter P (users w) of
         [] \<Rightarrow> Inl DoesNotExist
       | [u] \<Rightarrow> Inr u
       | _ \<Rightarrow> Inl MultipleObjectsReturned), emit DB_Read w)"

text \<open>\<open>get_object_or_404\<close> turns \<open>DoesNotExist\<close> into \<open>Http404\<close> and nothing else.\<close>

definition get_object_or_404 :: "(user \<Rightarrow> bool) \<Rightarrow> world \<Rightarrow> (exn + user) \<times> world" where
  "get_object_or_404 P w =
     (case objects_get P w of
        (Inl DoesNotExist, w') \<Rightarrow> (Inl Http404, w')
      | (r, w') \<Rightarrow> (r, w'))"

text \<open>\<open>user.save()\<close> of a loaded row: the row of that id is replaced, or inserted when absent.\<close>

definition Model_save :: "user \<Rightarrow> world \<Rightarrow> world" where
  "Model_save u w =
     emit DB_Write
       (w\<lparr>users := (if id_pk u \<in> set (map id_pk (users w))
                     then map (\<lambda>r. if id_pk r = id_pk u then u else r) (users w)
                     else users w @ [u])\<rparr>)"

text \<open>The id of a new row: above every id in the table, and at least 1.\<close>

definition next_id :: "user list \<Rightarrow> nat" where
  "next_id us = Suc (foldr max (map id_pk us) 0)"

definition objects_create :: "user \<Rightarrow> world \<Rightarrow> world" where
  "objects_create u w =
     emit DB_Write (w\<lparr>users := users w @ [u\<lparr>id_pk := next_id (users w)\<rparr>]\<rparr>)"

subsection \<open>The HTTP client\<close>

definition requests_get :: "env \<Rightarrow> string \<Rightarrow> dict \<Rightarrow> world \<Rightarrow> dict option \<times> world" where
  "requests_get env url headers w =
     (case map_of headers ''Authorization'' of
        None \<Rightarrow> None
      | Some h \<Rightarrow> userinfo env h, emit (HTTP_Get url headers) w)"

subsection \<open>The token library\<close>

text \<open>\<open>RefreshToken.for_user(user)\<close>: a fresh refresh token with the user's id.\<close>

definition for_user :: "env \<Rightarrow> user \<Rightarrow> claims" where
  "for_user env u = (new_token env ''refresh'')(''user_id'' \<mapsto> N (id_pk u))"

text \<open>
  \<open>refresh.access_token\<close>: a fresh access token to which every claim of the refresh
  token is copied, except the token type, the expiry and the token id.
\<close>

definition no_copy_claims :: "string list" where
  "no_copy_claims = [''token_type'', ''exp'', ''jti'']"

definition access_token :: "env \<Rightarrow> claims \<Rightarrow> claims" where
  "access_token env refresh =
     (\<lambda>k. if k \<in> set no_copy_claims then new_token env ''access'' k
          else (case refresh k of
                  None \<Rightarrow> new_token env ''access'' k
                | Some v \<Rightarrow> Some v))"

text \<open>\<open>str(token)\<close>: header, payload and signature, joined by dots.\<close>

definition token_str :: "env \<Rightarrow> claims \<Rightarrow> string" where
  "token_str env c = jwt_header env @ ''.'' @ jwt_payload env c @ ''.'' @ jwt_signature env c"

section \<open>Serializers\<close>

text \<open>The messages of one field: a missing field is an error, a present one is checked.\<close>

definition check_field :: "env \<Rightarrow> string \<Rightarrow> dict \<Rightarrow> string \<Rightarrow> string list \<Rightarrow> string list" where
  "check_field env ser d f extra =
     (case map_of d f of
        None \<Rightarrow> [''required'']
      | Some v \<Rightarrow> field_errors env ser f v @ extra)"

definition collect :: "(string \<times> string list) list \<Rightarrow> errors" where
  "collect fs = filter (\<lambda>(f, ms). ms \<noteq> []) fs"

definition taken :: "(user \<Rightarrow> string) \<Rightarrow> dict \<Rightarrow> string \<Rightarrow> user list \<Rightarrow> string list" where
  "taken col d f us =
     (case map_of d f of
        None \<Rightarrow> []
      | Some v \<Rightarrow> if v \<in> set (map col us) then [''unique''] else [])"

text \<open>
  Modelled from the spec: \<open>UserSerializer\<close> of \<open>user/serializers.py\<close>, which is not among
  the sources. Sign-up validates the field constraints, the uniqueness of username and
  email and the match of password and confirmation; saving persists a new active,
  local-login user with the password hashed. Its \<open>data\<close> is the record without the
  password.
\<close>

definition UserSerializer_errors :: "env \<Rightarrow> dict \<Rightarrow> user list \<Rightarrow> errors" where
  "UserSerializer_errors env d us =
     collect
        [(''username'', check_field env ''UserSerializer'' d ''username''
            (taken username d ''username'' us)),
         (''email'', check_field env ''UserSerializer'' d ''email''
            (taken email d ''email'' us)),
         (''password'', check_field env ''UserSerializer'' d ''password''
            (if map_of d ''password'' = map_of d ''password2'' then [] else [''mismatch''])),
         (''password2'', check_field env ''UserSerializer'' d ''password2'' [])]"

definition UserSerializer_is_valid :: "env \<Rightarrow> dict \<Rightarrow> world \<Rightarrow> errors \<times> world" where
  "UserSerializer_is_valid env d w = (UserSerializer_errors env d (users w), emit DB_Read w)"

definition field :: "dict \<Rightarrow> string \<Rightarrow> string" where
  "field d f = (case map_of d f of None \<Rightarrow> [] | Some v \<Rightarrow> v)"

definition UserSerializer_save :: "env \<Rightarrow> dict \<Rightarrow> world \<Rightarrow> world" where
  "UserSerializer_save env d w =
     objects_create
       \<lparr>id_pk = 0, username = field d ''username'', email = field d ''email'',
        password = make_password env (field d ''password''), is_active = True,
        logintype = ''LOCAL''\<rparr> w"

definition UserSerializer_data :: "user \<Rightarrow> user_repr" where
  "UserSerializer_data u =
     \<lparr>repr_id = id_pk u, repr_username = username u, repr_email = email u,
      repr_is_active = is_active u, repr_logintype = logintype u\<rparr>"

text \<open>
  Modelled from the spec: \<open>UserSignOutSerializer\<close> of \<open>user/serializers.py\<close>, which is
  not among the sources. It validates the supplied password against the stored hash of
  the user it was given.
\<close>

definition UserSignOutSerializer_errors :: "env \<Rightarrow> user \<Rightarrow> dict \<Rightarrow> errors" where
  "UserSignOutSerializer_errors env u d =
     collect
       [(''password'',
         (case map_of d ''password'' of
            None \<Rightarrow> [''required'']
          | Some p \<Rightarrow> if check_password env p (password u) then [] else [''wrong password'']))]"

text \<open>
  Modelled from the spec: \<open>GoogleUserSerializer\<close> of \<open>user/serializers.py\<close>, which is not
  among the sources. Provisioning validates the field constraints and the uniqueness of
  username and email; saving persists a new active row with \<open>logintype = GOOGLE\<close> and the
  password it was given, hashed as every stored password is.
\<close>

definition GoogleUserSerializer_errors :: "env \<Rightarrow> dict \<Rightarrow> user list \<Rightarrow> errors" where
  "GoogleUserSerializer_errors env d us =
     collect
        [(''email'', check_field env ''GoogleUserSerializer'' d ''email''
            (taken email d ''email'' us)),
         (''username'', check_field env ''GoogleUserSerializer'' d ''username''
            (taken username d ''username'' us)),
         (''password'', check_field env ''GoogleUserSerializer'' d ''password'' [])]"

definition GoogleUserSerializer_is_valid :: "env \<Rightarrow> dict \<Rightarrow> world \<Rightarrow> errors \<times> world" where
  "GoogleUserSerializer_is_valid env d w =
     (GoogleUserSerializer_errors env d (users w), emit DB_Read w)"

definition GoogleUserSerializer_save :: "env \<Rightarrow> dict \<Rightarrow> world \<Rightarrow> world" where
  "GoogleUserSerializer_save env d w =
     objects_create
       \<lparr>id_pk = 0, username = field d ''username'', email = field d ''email'',
        password = make_password env (field d ''password''), is_active = True,
        logintype = ''GOOGLE''\<rparr> w"

section \<open>The account handler: UserSignView\<close>

text \<open>\<open>UserSignView.post\<close>, lines 40 to 44.\<close>

definition UserSignView_post :: "env \<Rightarrow> request \<Rightarrow> world \<Rightarrow> (exn + response) \<times> world" where
  "UserSignView_post env request w =
     (case UserSerializer_is_valid env (data request) w of
        (errs, w1) \<Rightarrow>
          if errs = []
          then (Inr (Response (Message msg_signup_ok) (Some HTTP_201_CREATED)),
                UserSerializer_save env (data request) w1)
          else (Inr (Response (Errors errs) (Some HTTP_400_BAD_REQUEST)), w1))"

text \<open>\<open>UserSignView.put\<close>, lines 59 to 65.\<close>

definition UserSignView_put :: "env \<Rightarrow> request \<Rightarrow> world \<Rightarrow> (exn + response) \<times> world" where
  "UserSignView_put env request w =
     (case get_object_or_404 (\<lambda>u. Some (id_pk u) = principal_id (user request)) w of
        (Inl e, w1) \<Rightarrow> (Inl e, w1)
      | (Inr user', w1) \<Rightarrow>
          (let errs = UserSignOutSerializer_errors env user' (data request) in
           if errs = []
           then (Inr (Response (Message msg_signout_ok) (Some HTTP_200_OK)),
                 Model_save (user'\<lparr>is_active := False\<rparr>) w1)
           else (Inr (Response (Errors errs) (Some HTTP_400_BAD_REQUEST)), w1)))"

text \<open>The truth value Python gives an optional integer: \<open>None\<close> and 0 are false.\<close>

fun truthy :: "nat option \<Rightarrow> bool" where
  "truthy None = False"
| "truthy (Some n) = (n \<noteq> 0)"

text \<open>\<open>UserSignView.get\<close>, lines 81 to 84. No row has the id \<open>None\<close>.\<close>

definition UserSignView_get ::
  "env \<Rightarrow> request \<Rightarrow> nat option \<Rightarrow> world \<Rightarrow> (exn + response) \<times> world" where
  "UserSignView_get env request user_id w =
     (let user_id' = (if truthy user_id then user_id else principal_id (user request)) in
      case get_object_or_404 (\<lambda>u. Some (id_pk u) = user_id') w of
        (Inl e, w1) \<Rightarrow> (Inl e, w1)
      | (Inr user', w1) \<Rightarrow>
          (Inr (Response (Serialized (UserSerializer_data user')) (Some HTTP_200_OK)), w1))"

section \<open>The Google login bridge: GoogleTokenView\<close>

text \<open>\<open>s.split(c)\<close> of Python for a separator of one character.\<close>

fun split :: "string \<Rightarrow> char \<Rightarrow> string list" where
  "split [] c = [[]]"
| "split (x # xs) c =
     (if x = c then [] # split xs c
      else (case split xs c of [] \<Rightarrow> [[x]] | p # ps \<Rightarrow> (x # p) # ps))"

text \<open>Line 162: \<open>email.split("@")[0] + "_g"\<close>; the index raises on an empty list.\<close>

definition google_username :: "string \<Rightarrow> exn + string" where
  "google_username email' =
     (case split email' (CHR ''@'') of
        [] \<Rightarrow> Inl IndexError
      | p # _ \<Rightarrow> Inr (p @ ''_g''))"

definition userinfo_url :: string where
  "userinfo_url = ''https://www.googleapis.com/oauth2/v2/userinfo''"

text \<open>Lines 182 to 185: the refresh token of a user, with the three added claims.\<close>

definition refresh_for :: "env \<Rightarrow> user \<Rightarrow> claims" where
  "refresh_for env u =
     (for_user env u)
       (''email'' \<mapsto> S (email u), ''username'' \<mapsto> S (username u),
        ''logintype'' \<mapsto> S (logintype u))"

text \<open>Lines 177 to 192: what follows the lookup, with the resolved user.\<close>

definition GoogleTokenView_post_tokens :: "env \<Rightarrow> user \<Rightarrow> response" where
  "GoogleTokenView_post_tokens env user' =
     (if logintype user' \<noteq> ''GOOGLE''
      then Response (Message msg_not_social) (Some HTTP_400_BAD_REQUEST)
      else (let refresh = refresh_for env user' in
            Response (Tokens (token_str env refresh) (token_str env (access_token env refresh)))
              (Some HTTP_200_OK)))"

text \<open>
  Lines 165 to 176: the lookup by email; the bare \<open>except\<close> catches every exception of
  it and provisions a row. A failed validation returns the errors with no status.
\<close>

definition GoogleTokenView_post_resolve ::
  "env \<Rightarrow> string \<Rightarrow> string \<Rightarrow> string \<Rightarrow> world \<Rightarrow> (exn + response) \<times> world" where
  "GoogleTokenView_post_resolve env email' username' password' w =
     (case objects_get (\<lambda>u. email u = email') w of
        (Inr user', w1) \<Rightarrow> (Inr (GoogleTokenView_post_tokens env user'), w1)
      | (Inl _, w1) \<Rightarrow>
          (let d = [(''email'', email'), (''username'', username'), (''password'', password')] in
           case GoogleUserSerializer_is_valid env d w1 of
             (errs, w2) \<Rightarrow>
               if errs = []
               then (case get_object_or_404 (\<lambda>u. email u = email')
                            (GoogleUserSerializer_save env d w2) of
                       (Inl e, w3) \<Rightarrow> (Inl e, w3)
                     | (Inr user', w3) \<Rightarrow> (Inr (GoogleTokenView_post_tokens env user'), w3))
               else (Inr (Response (Errors errs) None), w2)))"

text \<open>\<open>GoogleTokenView.post\<close>, lines 146 to 192.\<close>

definition GoogleTokenView_post :: "env \<Rightarrow> request \<Rightarrow> world \<Rightarrow> (exn + response) \<times> world" where
  "GoogleTokenView_post env request w =
     (case map_of (data request) ''access_token'' of
        None \<Rightarrow> (Inr (Response (Message msg_no_token) (Some HTTP_401_UNAUTHORIZED)), w)
      | Some access_token' \<Rightarrow>
          (let headers = [(''Authorization'', ''Bearer '' @ access_token')] in
           case requests_get env userinfo_url headers w of
             (None, w1) \<Rightarrow> (Inl RequestFailed, w1)
           | (Some user_data, w1) \<Rightarrow>
               (case map_of user_data ''email'' of
                  None \<Rightarrow>
                    (Inr (Response (Message msg_no_userinfo) (Some HTTP_401_UNAUTHORIZED)), w1)
                | Some email' \<Rightarrow>
                    (case google_username email' of
                       Inl e \<Rightarrow> (Inl e, w1)
                     | Inr username' \<Rightarrow>
                         GoogleTokenView_post_resolve env email' username' ''0000''
                           (emit (Printed user_data) w1)))))"

section \<open>Example inputs\<close>

text \<open>
  A concrete environment and some rows, for evaluating the handlers: the identity
  provider knows one token, the hasher prefixes the password, the serializers have no
  field constraints, and a token has the three parts \<open>h\<close>, \<open>p\<close>, \<open>s\<close>.
\<close>

definition example_env :: env where
  "example_env =
     \<lparr>userinfo = (\<lambda>h. if h = ''Bearer tok'' then Some [(''email'', ''bob@x.com'')] else None),
      make_password = (\<lambda>p. ''hash:'' @ p),
      check_password = (\<lambda>p h. h = ''hash:'' @ p),
      field_errors = (\<lambda>ser f v. []),
      new_token = (\<lambda>t. [''token_type'' \<mapsto> S t, ''exp'' \<mapsto> N 300, ''jti'' \<mapsto> S ''j'']),
      jwt_header = ''h'',
      jwt_payload = (\<lambda>c. ''p''),
      jwt_signature = (\<lambda>c. ''s'')\<rparr>"

definition ann :: user where
  "ann = \<lparr>id_pk = 1, username = ''ann'', email = ''ann@x.com'', password = ''hash:Pw123!'',
           is_active = True, logintype = ''LOCAL''\<rparr>"

definition bob_local :: user where
  "bob_local = \<lparr>id_pk = 2, username = ''bob'', email = ''bob@x.com'', password = ''hash:pw'',
           is_active = True, logintype = ''LOCAL''\<rparr>"

definition bob_other :: user where
  "bob_other = \<lparr>id_pk = 2, username = ''bob_g'', email = ''bob@y.com'',
           password = ''hash:0000'', is_active = True, logintype = ''GOOGLE''\<rparr>"

definition bob_google :: user where
  "bob_google = \<lparr>id_pk = 2, username = ''bob_g'', email = ''bob@x.com'',
            password = ''hash:0000'', is_active = True, logintype = ''GOOGLE''\<rparr>"

definition ann_form :: dict where
  "ann_form = [(''username'', ''ann''), (''email'', ''ann@x.com''), (''password'', ''Pw123!''),
     (''password2'', ''Pw123!'')]"

definition ann_typo :: dict where
  "ann_typo = [(''username'', ''ann''), (''email'', ''ann@x.com''), (''password'', ''Pw123!''),
     (''password2'', ''Pw123?'')]"

definition anonymous_request :: "dict \<Rightarrow> request" where
  "anonymous_request d = \<lparr>data = d, user = AnonymousUser\<rparr>"

definition table :: "user list \<Rightarrow> world" where
  "table us = \<lparr>users = us, trace = []\<rparr>"

section \<open>The synthesized username\<close>

lemma split_takeWhile: "\<exists>ps. split e c = takeWhile (\<lambda>x. x \<noteq> c) e # ps"
  by (induction e) (auto split: list.splits)

text \<open>
  Claim C9. The username synthesized in the Google exchange is the part of the email
  before its first \<open>@\<close>, followed by \<open>_g\<close>; for an email with no \<open>@\<close> it is the whole
  email followed by \<open>_g\<close>. The index 0 never raises.
\<close>

theorem google_username_local_part:
  "google_username e = Inr (takeWhile (\<lambda>x. x \<noteq> CHR ''@'') e @ ''_g'') \<and>
   (CHR ''@'' \<notin> set e \<longrightarrow> google_username e = Inr (e @ ''_g''))"
proof -
  obtain ps where "split e (CHR ''@'') = takeWhile (\<lambda>x. x \<noteq> CHR ''@'') e # ps"
    using split_takeWhile by blast
  then have g: "google_username e = Inr (takeWhile (\<lambda>x. x \<noteq> CHR ''@'') e @ ''_g'')"
    by (simp add: google_username_def)
  have "CHR ''@'' \<notin> set e \<Longrightarrow> takeWhile (\<lambda>x. x \<noteq> CHR ''@'') e = e"
    by (rule takeWhile_eq_all_conv [THEN iffD2]) auto
  with g show ?thesis by simp
qed

theorem google_username_local_part_witness:
  "google_username ''bob@x.com'' = Inr ''bob_g'' \<and> CHR ''@'' \<notin> set ''bob'' \<and>
   google_username ''bob'' = Inr ''bob_g''"
  using google_username_local_part [of "''bob@x.com''"] google_username_local_part [of "''bob''"]
  by simp

section \<open>The Google exchange without a token\<close>

text \<open>
  Claim C8. A Google exchange whose body has no \<open>access_token\<close> is answered with status
  401, and the world is returned as it was: the trace gains no request to the identity
  provider and no query or write of the user table, and the table is the same. The
  answer depends on neither the environment nor the table.
\<close>

theorem post_without_access_token:
  assumes "map_of (data request) ''access_token'' = None"
  shows "GoogleTokenView_post env request w =
           (Inr \<lparr>body = Message msg_no_token, status_code = 401\<rparr>, w)"
  using assms by (simp add: GoogleTokenView_post_def Response_def HTTP_401_UNAUTHORIZED_def)

theorem post_without_access_token_witness:
  "map_of (data (anonymous_request [])) ''access_token'' = None \<and>
   GoogleTokenView_post example_env (anonymous_request []) (table [ann]) =
     (Inr \<lparr>body = Message msg_no_token, status_code = 401\<rparr>, table [ann])"
  using post_without_access_token [of "anonymous_request []" example_env "table [ann]"]
  by (simp add: anonymous_request_def)

section \<open>Retrieval\<close>

text \<open>
  Claim C10. A retrieval with no identifier by the anonymous user looks up the id
  \<open>None\<close>, which no row has: the handler raises \<open>Http404\<close>, answered with status 404, so
  no record is returned; the table is unchanged.
\<close>

theorem get_anonymous_not_found:
  assumes "user request = AnonymousUser"
  shows "fst (UserSignView_get env request None w) = Inl Http404 \<and>
         final_status (fst (UserSignView_get env request None w)) = 404 \<and>
         users (snd (UserSignView_get env request None w)) = users w"
  using assms
  by (simp add: UserSignView_get_def get_object_or_404_def objects_get_def emit_def
      HTTP_404_NOT_FOUND_def)

theorem get_anonymous_not_found_witness:
  "user (anonymous_request []) = AnonymousUser \<and>
   fst (UserSignView_get example_env (anonymous_request []) None (table [ann])) = Inl Http404"
  using get_anonymous_not_found [of "anonymous_request []" example_env "table [ann]"]
  by (simp add: anonymous_request_def)

text \<open>
  Claim C7. A retrieval with the identifier 0 does not look that identifier up: 0 is
  false in the test of line 81, so the caller's own id is used. With no row of id 0 in
  the table and the caller's row present, the handler answers 200 with the caller's
  record, where the claim and the docstring of the handler (lines 70 to 79) have 404.
\<close>

theorem get_zero_id_returns_caller:
  "fst (objects_get (\<lambda>u. id_pk u = 0) (table [ann])) = Inl DoesNotExist \<and>
   fst (UserSignView_get example_env \<lparr>data = [], user = Authenticated ann\<rparr> (Some 0)
          (table [ann])) =
     Inr \<lparr>body = Serialized (UserSerializer_data ann), status_code = 200\<rparr>"
  by (simp add: UserSignView_get_def get_object_or_404_def objects_get_def emit_def
      Response_def HTTP_200_OK_def ann_def table_def)

text \<open>
  For every other input the retrieval does what its docstring says: an identifier other
  than 0 is looked up, with 404 when no row has it and whoever the caller is, and without
  an identifier an authenticated caller gets their own record.
\<close>

lemma get_nonzero_id:
  assumes "n \<noteq> 0"
  shows "(filter (\<lambda>r. id_pk r = n) (users w) = [] \<longrightarrow>
            fst (UserSignView_get env request (Some n) w) = Inl Http404) \<and>
         (filter (\<lambda>r. id_pk r = n) (users w) = [u] \<longrightarrow>
            fst (UserSignView_get env request (Some n) w) =
              Inr \<lparr>body = Serialized (UserSerializer_data u), status_code = 200\<rparr>)"
  using assms
  by (simp add: UserSignView_get_def get_object_or_404_def objects_get_def Response_def
      HTTP_200_OK_def)

lemma get_own_record:
  assumes "user request = Authenticated a"
    and "filter (\<lambda>r. id_pk r = id_pk a) (users w) = [u]"
  shows "fst (UserSignView_get env request None w) =
           Inr \<lparr>body = Serialized (UserSerializer_data u), status_code = 200\<rparr>"
  using assms
  by (simp add: UserSignView_get_def get_object_or_404_def objects_get_def Response_def
      HTTP_200_OK_def)

section \<open>The Google exchange with a token\<close>

lemma google_username_eq:
  "google_username e = Inr (takeWhile (\<lambda>x. x \<noteq> CHR ''@'') e @ ''_g'')"
proof -
  obtain ps where "split e (CHR ''@'') = takeWhile (\<lambda>x. x \<noteq> CHR ''@'') e # ps"
    using split_takeWhile by blast
  then show ?thesis by (simp add: google_username_def)
qed

lemmas status_defs = HTTP_200_OK_def HTTP_201_CREATED_def HTTP_400_BAD_REQUEST_def
  HTTP_401_UNAUTHORIZED_def HTTP_404_NOT_FOUND_def

lemma objects_get_one:
  "filter P (users w) = [u] \<Longrightarrow> objects_get P w = (Inr u, emit DB_Read w)"
  by (simp add: objects_get_def)

lemma objects_get_raises:
  "length (filter P (users w)) \<noteq> 1 \<Longrightarrow> \<exists>x. objects_get P w = (Inl x, emit DB_Read w)"
  by (cases "filter P (users w)") (auto simp: objects_get_def split: list.splits)

lemma users_emit [simp]: "users (emit e w) = users w"
  by (simp add: emit_def)

lemma resolve_existing:
  assumes "filter (\<lambda>r. email r = e) (users w) = [u]"
  shows "GoogleTokenView_post_resolve env e n p w =
           (Inr (GoogleTokenView_post_tokens env u), emit DB_Read w)"
  using assms by (simp add: GoogleTokenView_post_resolve_def objects_get_one)

lemma resolve_invalid:
  assumes "length (filter (\<lambda>r. email r = e) (users w)) \<noteq> 1"
    and "GoogleUserSerializer_errors env [(''email'', e), (''username'', n), (''password'', p)]
           (users w) = errs"
    and "errs \<noteq> []"
  shows "GoogleTokenView_post_resolve env e n p w =
           (Inr (Response (Errors errs) None), emit DB_Read (emit DB_Read w))"
proof -
  obtain x where "objects_get (\<lambda>r. email r = e) w = (Inl x, emit DB_Read w)"
    using objects_get_raises [OF assms(1)] by blast
  then show ?thesis
    using assms(2,3)
    by (simp add: GoogleTokenView_post_resolve_def GoogleUserSerializer_is_valid_def)
qed

lemma post_with_email:
  assumes "map_of (data request) ''access_token'' = Some tok"
    and "userinfo env (''Bearer '' @ tok) = Some ud"
    and "map_of ud ''email'' = Some e"
  shows "GoogleTokenView_post env request w =
           GoogleTokenView_post_resolve env e (takeWhile (\<lambda>x. x \<noteq> CHR ''@'') e @ ''_g'') ''0000''
             (emit (Printed ud)
                (emit (HTTP_Get userinfo_url [(''Authorization'', ''Bearer '' @ tok)]) w))"
  using assms
  by (simp add: GoogleTokenView_post_def requests_get_def google_username_eq)

text \<open>
  Claim C2. When the lookup by email of a Google exchange resolves to a row whose
  \<open>logintype\<close> is not \<open>GOOGLE\<close>, the handler answers 400 with a message, not with
  tokens, and the user table is unchanged.
\<close>

theorem post_local_account_rejected:
  assumes "map_of (data request) ''access_token'' = Some tok"
    and "userinfo env (''Bearer '' @ tok) = Some ud"
    and "map_of ud ''email'' = Some e"
    and "filter (\<lambda>r. email r = e) (users w) = [u]"
    and "logintype u \<noteq> ''GOOGLE''"
  shows "fst (GoogleTokenView_post env request w) =
           Inr \<lparr>body = Message msg_not_social, status_code = 400\<rparr> \<and>
         users (snd (GoogleTokenView_post env request w)) = users w"
  using assms(4,5)
  by (simp add: post_with_email [OF assms(1-3)] resolve_existing
      GoogleTokenView_post_tokens_def Response_def status_defs)

theorem post_local_account_rejected_witness:
  "fst (GoogleTokenView_post example_env (anonymous_request [(''access_token'', ''tok'')])
          (table [ann, bob_local])) =
     Inr \<lparr>body = Message msg_not_social, status_code = 400\<rparr> \<and>
   users (snd (GoogleTokenView_post example_env (anonymous_request [(''access_token'', ''tok'')])
          (table [ann, bob_local]))) = [ann, bob_local]"
  using post_local_account_rejected [of "anonymous_request [(''access_token'', ''tok'')]" "''tok''"
      example_env "[(''email'', ''bob@x.com'')]" "''bob@x.com''" "table [ann, bob_local]" bob_local]
  by (simp add: anonymous_request_def example_env_def table_def ann_def bob_local_def)

text \<open>
  Claim C3. When the lookup by email of a Google exchange raises, so that provisioning
  is attempted, and the validation of the provisioning serializer fails, the handler
  answers with the validation errors as the body and with status 200, since the response
  of line 174 is given no status; the body is not a pair of tokens, and the user table
  is unchanged.
\<close>

theorem post_invalid_provisioning:
  assumes "map_of (data request) ''access_token'' = Some tok"
    and "userinfo env (''Bearer '' @ tok) = Some ud"
    and "map_of ud ''email'' = Some e"
    and "length (filter (\<lambda>r. email r = e) (users w)) \<noteq> 1"
    and "GoogleUserSerializer_errors env
           [(''email'', e), (''username'', takeWhile (\<lambda>x. x \<noteq> CHR ''@'') e @ ''_g''),
            (''password'', ''0000'')] (users w) = errs"
    and "errs \<noteq> []"
  shows "fst (GoogleTokenView_post env request w) = Inr \<lparr>body = Errors errs, status_code = 200\<rparr> \<and>
         users (snd (GoogleTokenView_post env request w)) = users w"
proof -
  let ?w1 = "emit (Printed ud)
               (emit (HTTP_Get userinfo_url [(''Authorization'', ''Bearer '' @ tok)]) w)"
  have "GoogleTokenView_post_resolve env e (takeWhile (\<lambda>x. x \<noteq> CHR ''@'') e @ ''_g'') ''0000'' ?w1 =
          (Inr (Response (Errors errs) None), emit DB_Read (emit DB_Read ?w1))"
    using assms(4-6) by (intro resolve_invalid) simp_all
  then show ?thesis
    by (simp add: post_with_email [OF assms(1-3)] Response_def status_defs)
qed

theorem post_invalid_provisioning_witness:
  "fst (GoogleTokenView_post example_env (anonymous_request [(''access_token'', ''tok'')])
          (table [ann, bob_other])) =
     Inr \<lparr>body = Errors [(''username'', [''unique''])], status_code = 200\<rparr> \<and>
   users (snd (GoogleTokenView_post example_env (anonymous_request [(''access_token'', ''tok'')])
          (table [ann, bob_other]))) = [ann, bob_other]"
  using post_invalid_provisioning [of "anonymous_request [(''access_token'', ''tok'')]" "''tok''"
      example_env "[(''email'', ''bob@x.com'')]" "''bob@x.com''" "table [ann, bob_other]"
      "[(''username'', [''unique''])]"]
  by (simp add: anonymous_request_def example_env_def table_def ann_def bob_other_def
      GoogleUserSerializer_errors_def collect_def check_field_def taken_def)

section \<open>Provisioning on the first Google login\<close>

lemma filter_absent:
  "v \<notin> set (map col us) \<Longrightarrow> filter (\<lambda>r. col r = v) us = []"
  by (induction us) auto

lemma foldr_max_ge: "r \<in> set us \<Longrightarrow> id_pk r \<le> foldr max (map id_pk us) 0"
  by (induction us) auto

lemma next_id_fresh: "next_id us \<notin> set (map id_pk us)"
proof
  assume "next_id us \<in> set (map id_pk us)"
  then obtain r where "r \<in> set us" "id_pk r = next_id us" by auto
  then show False using foldr_max_ge [of r us] by (simp add: next_id_def)
qed

lemma resolve_provisioned:
  assumes "e \<notin> set (map email (users w))"
    and "GoogleUserSerializer_errors env [(''email'', e), (''username'', n), (''password'', p)]
           (users w) = []"
    and "u = \<lparr>id_pk = next_id (users w), username = n, email = e,
              password = make_password env p, is_active = True, logintype = ''GOOGLE''\<rparr>"
  shows "fst (GoogleTokenView_post_resolve env e n p w) = Inr (GoogleTokenView_post_tokens env u) \<and>
         users (snd (GoogleTokenView_post_resolve env e n p w)) = users w @ [u]"
proof -
  have none: "filter (\<lambda>r. email r = e) (users w) = []"
    using assms(1) by (rule filter_absent)
  then have get: "objects_get (\<lambda>r. email r = e) w = (Inl DoesNotExist, emit DB_Read w)"
    by (simp add: objects_get_def)
  show ?thesis
    using assms(2,3) none
    by (simp add: GoogleTokenView_post_resolve_def get GoogleUserSerializer_is_valid_def
        GoogleUserSerializer_save_def objects_create_def get_object_or_404_def
        objects_get_def field_def emit_def)
qed

text \<open>
  Claim C1, as amended. For a Google exchange whose identity-provider response carries
  an email that no row has, and for which the validation of the provisioning serializer
  passes, the handler appends exactly one row \<open>u\<close> to the table, with the username made of
  the local part of the email and \<open>_g\<close>, the placeholder password \<open>0000\<close> as the hasher
  stores it, and \<open>logintype = GOOGLE\<close>; it answers 200 with a refresh and an access token,
  both non-empty, whose payloads hold the email, username and logintype of \<open>u\<close>.
\<close>

theorem post_new_email_provisions:
  assumes "map_of (data request) ''access_token'' = Some tok"
    and "userinfo env (''Bearer '' @ tok) = Some ud"
    and "map_of ud ''email'' = Some e"
    and "e \<notin> set (map email (users w))"
    and "GoogleUserSerializer_errors env
           [(''email'', e), (''username'', takeWhile (\<lambda>x. x \<noteq> CHR ''@'') e @ ''_g''),
            (''password'', ''0000'')] (users w) = []"
    and "u = \<lparr>id_pk = next_id (users w), username = takeWhile (\<lambda>x. x \<noteq> CHR ''@'') e @ ''_g'',
              email = e, password = make_password env ''0000'', is_active = True,
              logintype = ''GOOGLE''\<rparr>"
    and "refresh = refresh_for env u"
    and "access = access_token env refresh"
  shows "users (snd (GoogleTokenView_post env request w)) = users w @ [u] \<and>
         fst (GoogleTokenView_post env request w) =
           Inr \<lparr>body = Tokens (token_str env refresh) (token_str env access), status_code = 200\<rparr> \<and>
         token_str env refresh \<noteq> [] \<and> token_str env access \<noteq> [] \<and>
         refresh ''email'' = Some (S e) \<and> refresh ''username'' = Some (S (username u)) \<and>
         refresh ''logintype'' = Some (S ''GOOGLE'') \<and>
         access ''email'' = Some (S e) \<and> access ''username'' = Some (S (username u)) \<and>
         access ''logintype'' = Some (S ''GOOGLE'')"
proof -
  let ?w1 = "emit (Printed ud)
               (emit (HTTP_Get userinfo_url [(''Authorization'', ''Bearer '' @ tok)]) w)"
  let ?n = "takeWhile (\<lambda>x. x \<noteq> CHR ''@'') e @ ''_g''"
  have "fst (GoogleTokenView_post_resolve env e ?n ''0000'' ?w1) =
          Inr (GoogleTokenView_post_tokens env u) \<and>
        users (snd (GoogleTokenView_post_resolve env e ?n ''0000'' ?w1)) = users ?w1 @ [u]"
    using assms(4-6) by (intro resolve_provisioned) simp_all
  then have run: "fst (GoogleTokenView_post env request w) = Inr (GoogleTokenView_post_tokens env u)"
      "users (snd (GoogleTokenView_post env request w)) = users w @ [u]"
    by (simp_all add: post_with_email [OF assms(1-3)])
  have tokens: "GoogleTokenView_post_tokens env u =
      \<lparr>body = Tokens (token_str env refresh) (token_str env access), status_code = 200\<rparr>"
    using assms(6-8)
    by (simp add: GoogleTokenView_post_tokens_def Response_def status_defs Let_def)
  have r: "refresh ''email'' = Some (S e)" "refresh ''username'' = Some (S (username u))"
      "refresh ''logintype'' = Some (S ''GOOGLE'')"
    using assms(6,7) by (simp_all add: refresh_for_def)
  then have a: "access ''email'' = Some (S e)" "access ''username'' = Some (S (username u))"
      "access ''logintype'' = Some (S ''GOOGLE'')"
    using assms(8) by (simp_all add: access_token_def no_copy_claims_def)
  have ne: "token_str env refresh \<noteq> []" "token_str env access \<noteq> []"
    by (simp_all add: token_str_def)
  from run tokens r a ne show ?thesis by simp
qed

theorem post_new_email_provisions_witness:
  "users (snd (GoogleTokenView_post example_env (anonymous_request [(''access_token'', ''tok'')])
          (table [ann]))) = [ann, bob_google] \<and>
   fst (GoogleTokenView_post example_env (anonymous_request [(''access_token'', ''tok'')])
          (table [ann])) = Inr \<lparr>body = Tokens ''h.p.s'' ''h.p.s'', status_code = 200\<rparr> \<and>
   refresh_for example_env bob_google ''email'' = Some (S ''bob@x.com'') \<and>
   access_token example_env (refresh_for example_env bob_google) ''username'' = Some (S ''bob_g'')"
  using post_new_email_provisions [of "anonymous_request [(''access_token'', ''tok'')]" "''tok''"
      example_env "[(''email'', ''bob@x.com'')]" "''bob@x.com''" "table [ann]" bob_google
      "refresh_for example_env bob_google"
      "access_token example_env (refresh_for example_env bob_google)"]
  by (simp add: anonymous_request_def example_env_def table_def ann_def bob_google_def
      GoogleUserSerializer_errors_def collect_def check_field_def taken_def next_id_def
      token_str_def)

text \<open>
  Claim C1, as stated, fails: with the one row \<open>bob_other\<close> (username \<open>bob_g\<close>, email
  \<open>bob@y.com\<close>) in the table, an exchange for the new email \<open>bob@x.com\<close> synthesizes the
  username \<open>bob_g\<close> again; the validation fails, no row is provisioned and the answer
  holds the errors, not tokens.
\<close>

theorem post_new_email_username_taken:
  "map_of (data (anonymous_request [(''access_token'', ''tok'')])) ''access_token'' = Some ''tok'' \<and>
   userinfo example_env ''Bearer tok'' = Some [(''email'', ''bob@x.com'')] \<and>
   ''bob@x.com'' \<notin> set (map email (users (table [bob_other]))) \<and>
   fst (GoogleTokenView_post example_env (anonymous_request [(''access_token'', ''tok'')])
          (table [bob_other])) =
     Inr \<lparr>body = Errors [(''username'', [''unique''])], status_code = 200\<rparr> \<and>
   users (snd (GoogleTokenView_post example_env (anonymous_request [(''access_token'', ''tok'')])
          (table [bob_other]))) = [bob_other]"
  by (simp add: GoogleTokenView_post_def requests_get_def google_username_def
      GoogleTokenView_post_resolve_def objects_get_def GoogleUserSerializer_is_valid_def
      GoogleUserSerializer_errors_def collect_def check_field_def taken_def
      anonymous_request_def example_env_def table_def bob_other_def emit_def Response_def
      status_defs)

section \<open>Deactivation\<close>

lemma filter_single_eq:
  assumes "filter P us = [u]" and "r \<in> set us" and "P r"
  shows "r = u"
proof -
  have "r \<in> set (filter P us)" using assms(2,3) by simp
  then show ?thesis using assms(1) by simp
qed

lemma filter_single_mem:
  assumes "filter P us = [u]"
  shows "u \<in> set us \<and> P u"
proof -
  have "u \<in> set (filter P us)" using assms by simp
  then show ?thesis by simp
qed

lemma put_lookup:
  assumes "user request = Authenticated a"
    and "filter (\<lambda>r. id_pk r = id_pk a) (users w) = [u]"
  shows "get_object_or_404 (\<lambda>r. Some (id_pk r) = principal_id (user request)) w =
           (Inr u, emit DB_Read w)"
  using assms by (simp add: get_object_or_404_def objects_get_def)

text \<open>
  Claim C4. A deactivation by an authenticated caller whose row \<open>u\<close> exists, with a
  password that matches the stored hash, answers 200 with the success message. The table
  afterwards is the table before with \<open>is_active\<close> set to \<open>False\<close> in the row of the
  caller's id and every other row, and every other field, as it was: no row is removed.
\<close>

theorem put_correct_password_deactivates:
  assumes "user request = Authenticated a"
    and "filter (\<lambda>r. id_pk r = id_pk a) (users w) = [u]"
    and "map_of (data request) ''password'' = Some p"
    and "check_password env p (password u)"
  shows "fst (UserSignView_put env request w) =
           Inr \<lparr>body = Message msg_signout_ok, status_code = 200\<rparr> \<and>
         users (snd (UserSignView_put env request w)) =
           map (\<lambda>r. if id_pk r = id_pk a then r\<lparr>is_active := False\<rparr> else r) (users w) \<and>
         length (users (snd (UserSignView_put env request w))) = length (users w) \<and>
         u\<lparr>is_active := False\<rparr> \<in> set (users (snd (UserSignView_put env request w)))"
proof -
  have mem: "u \<in> set (users w)" and id: "id_pk u = id_pk a"
    using filter_single_mem [OF assms(2)] by simp_all
  have same: "map (\<lambda>r. if id_pk r = id_pk a then u\<lparr>is_active := False\<rparr> else r) (users w) =
              map (\<lambda>r. if id_pk r = id_pk a then r\<lparr>is_active := False\<rparr> else r) (users w)"
    using filter_single_eq [OF assms(2)] by (intro map_cong) auto
  have noerr: "UserSignOutSerializer_errors env u (data request) = []"
    using assms(3,4) by (simp add: UserSignOutSerializer_errors_def collect_def)
  have run: "UserSignView_put env request w =
      (Inr (Response (Message msg_signout_ok) (Some HTTP_200_OK)),
       Model_save (u\<lparr>is_active := False\<rparr>) (emit DB_Read w))"
    by (simp add: UserSignView_put_def put_lookup [OF assms(1,2)] noerr)
  have tbl: "users (Model_save (u\<lparr>is_active := False\<rparr>) (emit DB_Read w)) =
      map (\<lambda>r. if id_pk r = id_pk a then r\<lparr>is_active := False\<rparr> else r) (users w)"
  proof -
    have "id_pk a \<in> set (map id_pk (users w))"
      using mem id by (metis image_eqI set_map)
    then show ?thesis
      using id same by (simp add: Model_save_def)
  qed
  have "u\<lparr>is_active := False\<rparr> \<in>
      set (map (\<lambda>r. if id_pk r = id_pk a then r\<lparr>is_active := False\<rparr> else r) (users w))"
  proof -
    have "u\<lparr>is_active := False\<rparr> \<in>
        (\<lambda>r. if id_pk r = id_pk a then r\<lparr>is_active := False\<rparr> else r) ` set (users w)"
      by (rule image_eqI [where x = u]) (simp_all add: id mem)
    then show ?thesis by simp
  qed
  then show ?thesis
    by (simp add: run tbl Response_def status_defs)
qed

theorem put_correct_password_deactivates_witness:
  "fst (UserSignView_put example_env \<lparr>data = [(''password'', ''Pw123!'')], user = Authenticated ann\<rparr>
          (table [ann, bob_local])) =
     Inr \<lparr>body = Message msg_signout_ok, status_code = 200\<rparr> \<and>
   users (snd (UserSignView_put example_env
          \<lparr>data = [(''password'', ''Pw123!'')], user = Authenticated ann\<rparr>
          (table [ann, bob_local]))) = [ann\<lparr>is_active := False\<rparr>, bob_local]"
  using put_correct_password_deactivates
    [of "\<lparr>data = [(''password'', ''Pw123!'')], user = Authenticated ann\<rparr>" ann
        "table [ann, bob_local]" ann "''Pw123!''" example_env]
  by (simp add: example_env_def table_def ann_def bob_local_def)

text \<open>
  Claim C5. A deactivation by a caller whose row \<open>u\<close> exists, with a password that does
  not match the stored hash, answers 400 with the errors of the serializer, which are
  not empty, and the table, hence the row and its \<open>is_active\<close>, is unchanged.
\<close>

theorem put_wrong_password_rejected:
  assumes "user request = Authenticated a"
    and "filter (\<lambda>r. id_pk r = id_pk a) (users w) = [u]"
    and "map_of (data request) ''password'' = Some p"
    and "\<not> check_password env p (password u)"
  shows "fst (UserSignView_put env request w) =
           Inr \<lparr>body = Errors (UserSignOutSerializer_errors env u (data request)),
                status_code = 400\<rparr> \<and>
         UserSignOutSerializer_errors env u (data request) \<noteq> [] \<and>
         users (snd (UserSignView_put env request w)) = users w"
proof -
  have err: "UserSignOutSerializer_errors env u (data request) \<noteq> []"
    using assms(3,4) by (simp add: UserSignOutSerializer_errors_def collect_def)
  then show ?thesis
    by (simp add: UserSignView_put_def put_lookup [OF assms(1,2)] Response_def status_defs)
qed

theorem put_wrong_password_rejected_witness:
  "fst (UserSignView_put example_env \<lparr>data = [(''password'', ''guess'')], user = Authenticated ann\<rparr>
          (table [ann, bob_local])) =
     Inr \<lparr>body = Errors [(''password'', [''wrong password''])], status_code = 400\<rparr> \<and>
   users (snd (UserSignView_put example_env
          \<lparr>data = [(''password'', ''guess'')], user = Authenticated ann\<rparr>
          (table [ann, bob_local]))) = [ann, bob_local]"
  using put_wrong_password_rejected
    [of "\<lparr>data = [(''password'', ''guess'')], user = Authenticated ann\<rparr>" ann
        "table [ann, bob_local]" ann "''guess''" example_env]
  by (simp add: example_env_def table_def ann_def bob_local_def
      UserSignOutSerializer_errors_def collect_def)

section \<open>Sign-up\<close>

lemma collect_empty_iff: "collect fs = [] \<longleftrightarrow> (\<forall>(f, ms) \<in> set fs. ms = [])"
  by (auto simp: collect_def filter_empty_conv)

lemma check_field_empty:
  "check_field env ser d f extra = [] \<longleftrightarrow>
     (\<exists>v. map_of d f = Some v \<and> field_errors env ser f v = [] \<and> extra = [])"
  by (auto simp: check_field_def split: option.splits)

lemma UserSerializer_valid_iff:
  "UserSerializer_errors env d us = [] \<longleftrightarrow>
     (\<exists>n e p. map_of d ''username'' = Some n \<and> map_of d ''email'' = Some e \<and>
        map_of d ''password'' = Some p \<and> map_of d ''password2'' = Some p \<and>
        field_errors env ''UserSerializer'' ''username'' n = [] \<and>
        field_errors env ''UserSerializer'' ''email'' e = [] \<and>
        field_errors env ''UserSerializer'' ''password'' p = [] \<and>
        field_errors env ''UserSerializer'' ''password2'' p = [] \<and>
        n \<notin> set (map username us) \<and> e \<notin> set (map email us))"
  by (auto simp: UserSerializer_errors_def collect_empty_iff check_field_empty taken_def
      split: if_splits)

text \<open>
  Claim C6. A sign-up whose input passes validation, which requires the password and
  its confirmation to match and the username and email to be new, persists exactly one
  new row \<open>u\<close>, active and with \<open>logintype = LOCAL\<close>, and answers 201 with the success
  message. A sign-up whose input fails validation answers 400 with the errors and leaves
  the table as it was. A mismatch of password and confirmation always fails validation.
\<close>

theorem post_signup:
  assumes "errs = UserSerializer_errors env (data request) (users w)"
    and "u = \<lparr>id_pk = next_id (users w), username = field (data request) ''username'',
              email = field (data request) ''email'',
              password = make_password env (field (data request) ''password''),
              is_active = True, logintype = ''LOCAL''\<rparr>"
  shows "(errs = [] \<longrightarrow>
            fst (UserSignView_post env request w) =
              Inr \<lparr>body = Message msg_signup_ok, status_code = 201\<rparr> \<and>
            users (snd (UserSignView_post env request w)) = users w @ [u] \<and>
            id_pk u \<notin> set (map id_pk (users w)) \<and>
            map_of (data request) ''password'' = map_of (data request) ''password2'' \<and>
            username u \<notin> set (map username (users w)) \<and>
            email u \<notin> set (map email (users w))) \<and>
         (errs \<noteq> [] \<longrightarrow>
            fst (UserSignView_post env request w) =
              Inr \<lparr>body = Errors errs, status_code = 400\<rparr> \<and>
            users (snd (UserSignView_post env request w)) = users w) \<and>
         (map_of (data request) ''password'' \<noteq> map_of (data request) ''password2'' \<longrightarrow>
            errs \<noteq> [])"
proof -
  have ok: "errs = [] \<Longrightarrow>
      fst (UserSignView_post env request w) =
        Inr \<lparr>body = Message msg_signup_ok, status_code = 201\<rparr> \<and>
      users (snd (UserSignView_post env request w)) = users w @ [u]"
    using assms
    by (simp add: UserSignView_post_def UserSerializer_is_valid_def UserSerializer_save_def
        objects_create_def Response_def status_defs)
  have fresh: "id_pk u \<notin> set (map id_pk (users w))"
    using next_id_fresh [of "users w"] assms(2) by simp
  have valid: "errs = [] \<Longrightarrow>
      map_of (data request) ''password'' = map_of (data request) ''password2'' \<and>
      username u \<notin> set (map username (users w)) \<and> email u \<notin> set (map email (users w))"
    using assms by (auto simp: UserSerializer_valid_iff field_def)
  have bad: "errs \<noteq> [] \<Longrightarrow>
      fst (UserSignView_post env request w) = Inr \<lparr>body = Errors errs, status_code = 400\<rparr> \<and>
      users (snd (UserSignView_post env request w)) = users w"
    using assms(1)
    by (simp add: UserSignView_post_def UserSerializer_is_valid_def Response_def status_defs)
  have mismatch: "map_of (data request) ''password'' \<noteq> map_of (data request) ''password2'' \<Longrightarrow>
      errs \<noteq> []"
    using assms(1) by (auto simp: UserSerializer_valid_iff)
  from ok fresh valid bad mismatch show ?thesis by blast
qed

theorem post_signup_witness:
  "UserSerializer_errors example_env ann_form [] = [] \<and>
   fst (UserSignView_post example_env (anonymous_request ann_form) (table [])) =
     Inr \<lparr>body = Message msg_signup_ok, status_code = 201\<rparr> \<and>
   users (snd (UserSignView_post example_env (anonymous_request ann_form) (table []))) = [ann] \<and>
   UserSerializer_errors example_env ann_typo [] = [(''password'', [''mismatch''])] \<and>
   fst (UserSignView_post example_env (anonymous_request ann_typo) (table [])) =
     Inr \<lparr>body = Errors [(''password'', [''mismatch''])], status_code = 400\<rparr> \<and>
   users (snd (UserSignView_post example_env (anonymous_request ann_typo) (table []))) = []"
proof -
  have good: "UserSerializer_errors example_env ann_form [] = []"
    by (simp add: UserSerializer_errors_def collect_def check_field_def taken_def
        example_env_def ann_form_def)
  have typo: "UserSerializer_errors example_env ann_typo [] = [(''password'', [''mismatch''])]"
    by (simp add: UserSerializer_errors_def collect_def check_field_def taken_def
        example_env_def ann_typo_def)
  have row: "ann = \<lparr>id_pk = next_id [], username = field ann_form ''username'',
      email = field ann_form ''email'',
      password = make_password example_env (field ann_form ''password''),
      is_active = True, logintype = ''LOCAL''\<rparr>"
    by (simp add: ann_def next_id_def field_def ann_form_def example_env_def)
  show ?thesis
    using post_signup [of "[]" example_env "anonymous_request ann_form" "table []" ann]
      post_signup [of "[(''password'', [''mismatch''])]" example_env "anonymous_request ann_typo"
        "table []" "\<lparr>id_pk = next_id [], username = field ann_typo ''username'',
          email = field ann_typo ''email'',
          password = make_password example_env (field ann_typo ''password''),
          is_active = True, logintype = ''LOCAL''\<rparr>"]
      good typo row
    by (simp add: anonymous_request_def table_def)
qed

end
